theory Spec2Isabelle
  imports Complex_Main "HOL-Library.Sublist"
begin

section \<open>Python numbers\<close>

text \<open>
  The scripts compute ratios, durations and clock readings as Python floats. They are
  read here as exact rationals (type rat): 9/16, 16/9, 0.01, 60.0
  stand for the rationals they denote, so a comparison at a threshold is decided as in
  exact arithmetic. Python's int(x) truncates towards zero; // on integers is
  floor division, which is div on int.
\<close>

definition py_int :: "rat \<Rightarrow> int" where
  "py_int x = (if 0 \<le> x then \<lfloor>x\<rfloor> else \<lceil>x\<rceil>)"

datatype py_error = ZeroDivisionError | FFmpegError

section \<open>VE\_QW\_FInal\_prefect.py: constants and decisions\<close>

definition TARGET_RATIO :: rat where
  "TARGET_RATIO = 9 / 16"

definition FEATHER_WIDTH :: int where
  "FEATHER_WIDTH = 30"

definition MAX_DURATION :: rat where
  "MAX_DURATION = 60"

definition TRIM_DURATION :: rat where
  "TRIM_DURATION = 14"

text \<open>is_target_ratio (lines 913-936): two tests in sequence, then False.\<close>

definition is_target_ratio :: "rat \<Rightarrow> bool" where
  "is_target_ratio ratio =
     (let tolerance = 1 / 100; target_ratio = TARGET_RATIO in
      if \<bar>ratio - target_ratio\<bar> < tolerance then True
      else if \<bar>ratio - 9 / 18\<bar> < tolerance \<or> \<bar>ratio - 9 / 15\<bar> < tolerance then True
      else False)"

text \<open>
  The skip decision of process_single_video (lines 1017-1020): a source whose ratio
  is a target ratio is skipped, every other one goes on to process_video.
\<close>

datatype ratio_class = Skip | NeedsReframe

definition classifyRatio :: "rat \<Rightarrow> ratio_class" where
  "classifyRatio original_ratio = (if is_target_ratio original_ratio then Skip else NeedsReframe)"

text \<open>calculate_target_resolution (lines 939-960) ignores its arguments.\<close>

definition calculate_target_resolution :: "int \<Rightarrow> int \<Rightarrow> rat \<Rightarrow> int \<times> int" where
  "calculate_target_resolution original_width original_height original_ratio = (1080, 1920)"

text \<open>The rotation test of process_video (line 626), a chained comparison.\<close>

definition needs_rotation :: "rat \<Rightarrow> bool" where
  "needs_rotation original_ratio = (1 \<le> original_ratio \<and> original_ratio \<le> 16 / 9)"


section \<open>Video\_Edit\_FF.py: the accepted ratios of the two-target variant\<close>

definition is_valid_aspect_ratio :: "int \<Rightarrow> int \<Rightarrow> bool" where
  "is_valid_aspect_ratio w h =
     (let ratio = (if h \<noteq> 0 then of_int w / of_int h else (0 :: rat));
          target_ratio_9_16 = 9 / 16;
          target_ratio_16_9 = 16 / 9;
          tolerance = 1 / 100
      in \<bar>ratio - target_ratio_9_16\<bar> < tolerance \<or> \<bar>ratio - target_ratio_16_9\<bar> < tolerance)"

section \<open>VE\_QW\_FInal\_prefect.py: foreground geometry\<close>

text \<open>
  The scaling parameters that create_feathered_foreground computes (lines 406-434)
  before it runs the engine. The branch is chosen by comparing the ratio it is given with
  the constant TARGET_RATIO; the sizes come from the pixel dimensions. The true
  division raises ZeroDivisionError on a zero divisor.
\<close>

record fg_geometry =
  scaled_width :: int
  scaled_height :: int
  pad_x :: int
  pad_y :: int

definition fg_scaling :: "int \<Rightarrow> int \<Rightarrow> rat \<Rightarrow> int \<Rightarrow> int \<Rightarrow> py_error + fg_geometry" where
  "fg_scaling orig_w orig_h original_ratio target_width target_height =
     (if original_ratio > TARGET_RATIO then
        (if orig_w = 0 then Inl ZeroDivisionError
         else
           let sw = target_width;
               sh = py_int (of_int (orig_h * target_width) / of_int orig_w)
           in Inr \<lparr>scaled_width = sw, scaled_height = sh,
                    pad_x = 0, pad_y = (target_height - sh) div 2\<rparr>)
      else
        (if orig_h = 0 then Inl ZeroDivisionError
         else
           let sh = target_height;
               sw = py_int (of_int (orig_w * target_height) / of_int orig_h)
           in Inr \<lparr>scaled_width = sw, scaled_height = sh,
                    pad_x = (target_width - sw) div 2, pad_y = 0\<rparr>))"

section \<open>VE\_QW\_FInal\_prefect.py: the engine as an environment\<close>

text \<open>
  Files are named by how the script derives them: a source in the working directory, the
  temporary trimmed or rotated copy of a file (temp_trimmed_path,
  temp_rotated_path), the output of a source. The dictionary returned by
  get_video_info keeps the keys the decisions read.
\<close>

datatype path = Source string | Trimmed path | Rotated path | Output string

record video_info =
  width :: int
  height :: int
  display_ratio :: rat
  duration :: rat
  fps :: rat
  has_audio :: bool

text \<open>
  What the external tools answer. probe is get_video_info (None is its empty
  dictionary); the _runs fields say whether a run of the engine returns without
  ffmpeg.Error; output_exists and output_size are what the file system
  reports after the final run (size in bytes).
\<close>

record world =
  ffmpeg_found :: bool
  cuda_support :: bool
  probe :: "path \<Rightarrow> video_info option"
  trim_runs :: "path \<Rightarrow> bool"
  rotate_runs :: "path \<Rightarrow> bool"
  fg_scale_runs :: "path \<Rightarrow> bool"
  feather_runs :: "path \<Rightarrow> bool"
  fallback_runs :: "path \<Rightarrow> bool"
  encode_runs :: "path \<Rightarrow> bool"
  output_exists :: "path \<Rightarrow> bool"
  output_size :: "path \<Rightarrow> nat"

text \<open>The effects of a unit, in order: the calls it makes and the lines it logs.\<close>

datatype log_msg =
    Err_no_ffmpeg | Err_no_video_info | Err_ffmpeg | Err_exception
  | Warn_trim_failed | Warn_small_output | Err_output_missing
  | Info_skipped | Err_unit_failed string

datatype event =
    Call_trim_video path path rat
  | Run_transpose path path
  | Call_create_foreground path int int rat int int
  | Run_encode path path bool
  | Log log_msg

text \<open>trim_video (lines 316-398): every failure is caught and returned as False.\<close>

definition trim_video :: "world \<Rightarrow> path \<Rightarrow> path \<Rightarrow> rat \<Rightarrow> bool" where
  "trim_video w input_path output_path dur =
     (if \<not> ffmpeg_found w then False
      else case probe w input_path of
        None \<Rightarrow> False
      | Some video_info \<Rightarrow>
          if \<not> trim_runs w input_path then False
          else (case probe w output_path of Some trimmed_info \<Rightarrow> True | None \<Rightarrow> False))"

datatype feather_method = Gradient_alpha int | Boxblur_fallback int

text \<open>
  create_feathered_foreground (lines 400-568): geometry, the run that stores the
  scaled foreground, then the gradient feather over FEATHER_WIDTH pixels (lines
  473-478); any failure of the gradient falls back to a box blur of radius 15 (line 531).
  A failure of the first run or of the fallback leaves the function as an exception.
\<close>

definition create_feathered_foreground ::
  "world \<Rightarrow> path \<Rightarrow> int \<Rightarrow> int \<Rightarrow> rat \<Rightarrow> int \<Rightarrow> int \<Rightarrow> py_error + (fg_geometry \<times> feather_method)" where
  "create_feathered_foreground w src orig_w orig_h original_ratio target_width target_height =
     (case fg_scaling orig_w orig_h original_ratio target_width target_height of
        Inl e \<Rightarrow> Inl e
      | Inr g \<Rightarrow>
          if \<not> fg_scale_runs w src then Inl FFmpegError
          else if feather_runs w src then Inr (g, Gradient_alpha FEATHER_WIDTH)
          else if fallback_runs w src then Inr (g, Boxblur_fallback 15)
          else Inl FFmpegError)"

section \<open>VE\_QW\_FInal\_prefect.py: process\_video\<close>

text \<open>
  The local variables orig_w, orig_h, has_audio, original_ratio are always
  assigned together from the current video_info (lines 589-591, 616-618, 679-681), so
  the working state is the current input path, the current video_info and the local
  duration, which the rotation step does not reassign. A stage yields its events and
  the new working state, or None where the source returns False.
\<close>

type_synonym working = "path \<times> video_info \<times> rat"

definition trim_stage :: "world \<Rightarrow> path \<Rightarrow> video_info \<Rightarrow> event list \<times> working option" where
  "trim_stage w input_path video_info =
     (if duration video_info > MAX_DURATION then
        (let temp_trimmed_path = Trimmed input_path;
             c = Call_trim_video input_path temp_trimmed_path TRIM_DURATION
         in if trim_video w input_path temp_trimmed_path TRIM_DURATION then
              (case probe w temp_trimmed_path of
                 None \<Rightarrow> ([c, Log Err_no_video_info], None)
               | Some vi \<Rightarrow> ([c], Some (temp_trimmed_path, vi, duration vi)))
            else ([c, Log Warn_trim_failed], Some (input_path, video_info, duration video_info)))
      else ([], Some (input_path, video_info, duration video_info)))"

definition rotate_stage :: "world \<Rightarrow> working \<Rightarrow> event list \<times> working option" where
  "rotate_stage w wk =
     (case wk of (input_path, video_info, dur) \<Rightarrow>
        if needs_rotation (display_ratio video_info) then
          (let temp_rotated_path = Rotated input_path;
               c = Run_transpose input_path temp_rotated_path
           in if \<not> rotate_runs w input_path then ([c, Log Err_ffmpeg], None)
              else (case probe w temp_rotated_path of
                      None \<Rightarrow> ([c, Log Err_no_video_info], None)
                    | Some vi \<Rightarrow> ([c], Some (temp_rotated_path, vi, dur))))
        else ([], Some (input_path, video_info, dur)))"

text \<open>
  Lines 695-802: foreground, final run, then the look at the output file. The size is
  compared in megabytes, st_size / (1024 * 1024) < 0.1.
\<close>

definition compose_stage ::
  "world \<Rightarrow> working \<Rightarrow> path \<Rightarrow> int \<Rightarrow> int \<Rightarrow> bool \<Rightarrow> event list \<times> bool" where
  "compose_stage w wk output_path target_width target_height use_cuda =
     (case wk of (input_path, video_info, dur) \<Rightarrow>
        let c1 = Call_create_foreground input_path (width video_info) (height video_info)
                   (display_ratio video_info) target_width target_height;
            c2 = Run_encode input_path output_path use_cuda
        in (case create_feathered_foreground w input_path (width video_info) (height video_info)
                  (display_ratio video_info) target_width target_height of
             Inl e \<Rightarrow> ([c1, Log (case e of FFmpegError \<Rightarrow> Err_ffmpeg | ZeroDivisionError \<Rightarrow> Err_exception)], False)
           | Inr gm \<Rightarrow>
               if \<not> encode_runs w input_path then ([c1, c2, Log Err_ffmpeg], False)
               else if output_exists w output_path then
                 (let output_size_mb = (of_nat (output_size w output_path) :: rat) / (1024 * 1024)
                  in ([c1, c2] @ (if output_size_mb < 1 / 10 then [Log Warn_small_output] else []), True))
               else ([c1, c2, Log Err_output_missing], False)))"

text \<open>Lines 625-802 as one step: what follows the trim step, from a working state.\<close>

definition rotate_and_compose ::
  "world \<Rightarrow> working \<Rightarrow> path \<Rightarrow> int \<Rightarrow> int \<Rightarrow> bool \<Rightarrow> event list \<times> bool" where
  "rotate_and_compose w wk1 output_path target_width target_height use_cuda =
     (case rotate_stage w wk1 of
        (ev2, None) \<Rightarrow> (ev2, False)
      | (ev2, Some wk2) \<Rightarrow>
          (case compose_stage w wk2 output_path target_width target_height use_cuda of
             (ev3, r) \<Rightarrow> (ev2 @ ev3, r)))"

definition process_video ::
  "world \<Rightarrow> path \<Rightarrow> path \<Rightarrow> int \<Rightarrow> int \<Rightarrow> bool \<Rightarrow> event list \<times> bool" where
  "process_video w input_path output_path target_width target_height use_cuda =
     (if \<not> ffmpeg_found w then ([Log Err_no_ffmpeg], False)
      else case probe w input_path of
        None \<Rightarrow> ([Log Err_no_video_info], False)
      | Some video_info \<Rightarrow>
          (case trim_stage w input_path video_info of
             (ev1, None) \<Rightarrow> (ev1, False)
           | (ev1, Some wk1) \<Rightarrow>
               (case rotate_and_compose w wk1 output_path target_width target_height use_cuda of
                  (ev, r) \<Rightarrow> (ev1 @ ev, r))))"

section \<open>VE\_QW\_FInal\_prefect.py: the batch\<close>

definition MAX_VRAM_USAGE :: int where
  "MAX_VRAM_USAGE = 4 * 1024 * 1024 * 1024"

definition estimate_vram_usage :: "int \<Rightarrow> int \<Rightarrow> rat \<Rightarrow> rat \<Rightarrow> int" where
  "estimate_vram_usage w h dur frame_rate =
     (let bytes_per_frame = w * h * 3;
          frames_needed = min 60 (py_int (frame_rate * 2))
      in bytes_per_frame * frames_needed * 2)"

definition process_single_video :: "world \<Rightarrow> string \<Rightarrow> event list \<times> bool" where
  "process_single_video w name =
     (case probe w (Source name) of
        None \<Rightarrow> ([Log Err_no_video_info], False)
      | Some video_info \<Rightarrow>
          let original_ratio = display_ratio video_info in
          if is_target_ratio original_ratio then ([Log Info_skipped], True)
          else
            (case calculate_target_resolution (width video_info) (height video_info) original_ratio of
               (target_width, target_height) \<Rightarrow>
                 let estimated_vram = estimate_vram_usage (width video_info) (height video_info)
                                        (duration video_info) (fps video_info);
                     use_cuda = (if cuda_support w \<and> estimated_vram > MAX_VRAM_USAGE then False
                                 else cuda_support w)
                 in process_video w (Source name) (Output name) target_width target_height use_cuda))"

text \<open>
  process_all_videos (lines 1059-1110): the loop over the files found, with its success
  counter; a failed file is logged and the loop goes on. It ends by logging the number of
  successes and the number of files (line 1093).
\<close>

fun process_loop :: "world \<Rightarrow> string list \<Rightarrow> event list \<times> nat \<Rightarrow> event list \<times> nat" where
  "process_loop w [] acc = acc"
| "process_loop w (video_file # rest) (evs, success_count) =
     (case process_single_video w video_file of
        (e, r) \<Rightarrow>
          process_loop w rest
            (if r then (evs @ e, success_count + 1)
             else (evs @ e @ [Log (Err_unit_failed video_file)], success_count)))"

definition process_all_videos :: "world \<Rightarrow> string list \<Rightarrow> event list \<times> nat \<times> nat" where
  "process_all_videos w video_files =
     (case process_loop w video_files ([], 0) of
        (evs, success_count) \<Rightarrow> (evs, success_count, length video_files))"

section \<open>main\_gui\_v3\_release.py: run\_ffmpeg\_task\<close>

text \<open>
  The child's merged output is read as text, one line per loop iteration. Lines are
  modelled as ASCII strings: \s is an ASCII white-space character, \d an ASCII
  digit. re_search_frame is re.search(r'frame=\s*(\d+)', line) followed by
  int(match.group(1)): the leftmost position where the pattern matches.
\<close>

definition is_space :: "char \<Rightarrow> bool" where
  "is_space c = (let n = (of_char c :: nat) in (9 \<le> n \<and> n \<le> 13) \<or> (28 \<le> n \<and> n \<le> 32))"

definition is_digit :: "char \<Rightarrow> bool" where
  "is_digit c = (let n = (of_char c :: nat) in 48 \<le> n \<and> n \<le> 57)"

definition digits_value :: "string \<Rightarrow> nat" where
  "digits_value ds = foldl (\<lambda>acc c. 10 * acc + (of_char c - 48)) 0 ds"

definition match_frame_at :: "string \<Rightarrow> nat option" where
  "match_frame_at s =
     (if prefix ''frame='' s then
        (let ds = takeWhile is_digit (dropWhile is_space (drop 6 s))
         in if ds = [] then None else Some (digits_value ds))
      else None)"

fun re_search_frame :: "string \<Rightarrow> nat option" where
  "re_search_frame [] = None"
| "re_search_frame (c # cs) =
     (case match_frame_at (c # cs) of
        Some n \<Rightarrow> Some n
      | None \<Rightarrow> re_search_frame cs)"

text \<open>
  One pass through the loop body sees: the flag self.is_running (line 100), the line
  that readline returned (empty at end of file), the answer of process.poll()
  (None while the child lives, else its return code) and the clock. The two readings
  of time.time() in one pass (lines 114 and 122) are taken as the same instant.
\<close>

record reading =
  is_running :: bool
  line :: string
  poll :: "int option"
  clock :: rat

datatype signal = Progress_bar int | Stall_warning

text \<open>
  The outcome of a call: the value returned, or None when the call does not return;
  whether process.terminate() was called; the texts sent to log_signal, a
  progress bar being named by its percentage.
\<close>

record task_run =
  returned :: "bool option"
  terminated :: bool
  emitted :: "signal list"

text \<open>Python's substring test needle in haystack.\<close>

fun py_in :: "string \<Rightarrow> string \<Rightarrow> bool" where
  "py_in needle [] = (needle = [])"
| "py_in needle (c # cs) = (prefix needle (c # cs) \<or> py_in needle cs)"

text \<open>Lines 108-119: the effect of one line on the two loop variables and the log.\<close>

definition frame_of_line :: "string \<Rightarrow> nat option" where
  "frame_of_line l = (if py_in ''frame='' l then re_search_frame l else None)"

definition percent :: "int \<Rightarrow> int \<Rightarrow> int" where
  "percent total_frames current_frame =
     min 100 (py_int (of_int (current_frame * 100) / of_int total_frames))"

definition note_line :: "int \<Rightarrow> reading \<Rightarrow> int \<times> rat \<times> signal list \<Rightarrow> int \<times> rat \<times> signal list" where
  "note_line total_frames r st =
     (case st of (last_frame_count, last_active_time, out) \<Rightarrow>
        (case frame_of_line (line r) of
           None \<Rightarrow> st
         | Some current_frame \<Rightarrow>
             if int current_frame \<noteq> last_frame_count then
               (int current_frame, clock r,
                if total_frames > 0 then out @ [Progress_bar (percent total_frames (int current_frame))]
                else out)
             else st))"

text \<open>
  The while True loop (lines 99-125) over the readings the child gives rise to. When
  they run out before the loop has left, readline is waiting for a line that does not
  come: the call does not return.
\<close>

fun run_loop :: "int \<Rightarrow> int \<times> rat \<times> signal list \<Rightarrow> reading list \<Rightarrow> task_run" where
  "run_loop total_frames st [] =
     \<lparr>returned = None, terminated = False, emitted = snd (snd st)\<rparr>"
| "run_loop total_frames st (r # rs) =
     (if \<not> is_running r then
        \<lparr>returned = Some False, terminated = True, emitted = snd (snd st)\<rparr>
      else if line r = [] \<and> poll r \<noteq> None then
        \<lparr>returned = Some (poll r = Some 0), terminated = False, emitted = snd (snd st)\<rparr>
      else
        (case note_line total_frames r st of
           (last_frame_count, last_active_time, out) \<Rightarrow>
             if clock r - last_active_time > 25 then
               \<lparr>returned = Some False, terminated = True, emitted = out @ [Stall_warning]\<rparr>
             else run_loop total_frames (last_frame_count, last_active_time, out) rs))"

text \<open>
  run_ffmpeg_task: the child started for the command is given by the clock at its
  start and its readings.
\<close>

definition run_ffmpeg_task :: "rat \<times> reading list \<Rightarrow> int \<Rightarrow> task_run" where
  "run_ffmpeg_task child total_frames = run_loop total_frames (- 1, fst child, []) (snd child)"

section \<open>The filter graph of the wallpaper scripts\<close>

text \<open>
  ve_wallpaper.py (build_complex_filter, lines 46-79) and
  main_gui_v3_release.py (lines 180-192) write the same graph as a string, up to the
  names of its labels. The graph is kept here by its filters and their numbers: the first
  filter (transpose=1 or copy), the background's scale (with
  force_original_aspect_ratio=increase), crop and gblur, the white mask canvas,
  its four black drawbox borders as (x, y, w, h), the boxblur and the position of
  the overlay.
\<close>

datatype first_filter = Transpose_cw | Copy_stream

record filter_graph =
  first :: first_filter
  bg_scale :: "int \<times> int"
  bg_crop :: "int \<times> int"
  bg_sigma :: int
  mask_size :: "int \<times> int"
  drawboxes :: "(int \<times> int \<times> int \<times> int) list"
  mask_blur :: "int \<times> int"
  overlay_at :: "int \<times> int"

definition build_complex_filter :: "bool \<Rightarrow> int \<Rightarrow> int \<Rightarrow> int \<Rightarrow> filter_graph" where
  "build_complex_filter do_rotate w h target_h =
     (let sw = (w div 2) * 2; sh = (h div 2) * 2;
          sth = (target_h div 2) * 2;
          y_offset = (sth - sh) div 2
      in \<lparr>first = (if do_rotate then Transpose_cw else Copy_stream),
           bg_scale = (sw, sth), bg_crop = (sw, sth), bg_sigma = 20,
           mask_size = (sw, sh),
           drawboxes = [(0, 0, sw, 30), (0, sh - 30, sw, 30), (0, 0, 30, sh), (sw - 30, 0, 30, sh)],
           mask_blur = (30, 1),
           overlay_at = (0, y_offset)\<rparr>)"

text \<open>The width of the feathered border of a graph: the thickness of its top border box.\<close>

definition featherWidthPx :: "filter_graph \<Rightarrow> int" where
  "featherWidthPx g = (case drawboxes g of [] \<Rightarrow> 0 | (x, y, bw, bh) # rest \<Rightarrow> bh)"

section \<open>ve\_wallpaper.py: process\_file\<close>

text \<open>
  Lines 87-89: a source wider than high is rotated, and its sides are exchanged. The
  source's variable rotate is written do_rotate.
\<close>

definition working_dims :: "int \<Rightarrow> int \<Rightarrow> bool \<times> int \<times> int" where
  "working_dims ow oh = (let do_rotate = ow > oh in (do_rotate, if do_rotate then (oh, ow) else (ow, oh)))"

definition target_presets :: "(string \<times> rat) list" where
  "target_presets = [(''9x20'', 9 / 20), (''5x11'', 5 / 11)]"

text \<open>Lines 92-98: the graph built for each target; target_h = int(w / ratio).\<close>

definition process_file_plans :: "int \<Rightarrow> int \<Rightarrow> (string \<times> filter_graph) list" where
  "process_file_plans ow oh =
     (case working_dims ow oh of
        (do_rotate, w, h) \<Rightarrow>
          map (\<lambda>(label, ratio). (label, build_complex_filter do_rotate w h (py_int (of_int w / ratio))))
            target_presets)"

section \<open>main\_gui\_v3\_release.py: one target of one video\<close>

datatype encoder = H264_nvenc | Libx264

record ffmpeg_cmd =
  cmd_input :: string
  cmd_filter :: filter_graph
  cmd_encoder :: encoder
  cmd_output :: string

datatype gui_log =
    Log_processing string string
  | From_task signal
  | Log_gpu_failed
  | Log_task_done
  | Total_progress int

text \<open>
  What the worker has done so far: the counter completed_tasks, the signals sent and the
  commands handed to run_ffmpeg_task, in order.
\<close>

record worker =
  completed_tasks :: int
  sent :: "gui_log list"
  attempts :: "ffmpeg_cmd list"

text \<open>
  The body of the inner loop of run (lines 174-222) for one label and ratio, with
  is_running set. child says how the process started for a command behaves. The
  value of the second call of run_ffmpeg_task is not bound to a name. The result is
  None when a call of run_ffmpeg_task does not return.
\<close>

definition cmd_gpu :: "string \<Rightarrow> filter_graph \<Rightarrow> string \<Rightarrow> ffmpeg_cmd" where
  "cmd_gpu v_path filter_str target_file =
     \<lparr>cmd_input = v_path, cmd_filter = filter_str, cmd_encoder = H264_nvenc,
      cmd_output = target_file\<rparr>"

definition cmd_cpu :: "string \<Rightarrow> filter_graph \<Rightarrow> string \<Rightarrow> ffmpeg_cmd" where
  "cmd_cpu v_path filter_str target_file =
     \<lparr>cmd_input = v_path, cmd_filter = filter_str, cmd_encoder = Libx264,
      cmd_output = target_file\<rparr>"

text \<open>Lines 219-222: the task is logged as done and counted.\<close>

definition finish_task :: "int \<Rightarrow> worker \<Rightarrow> gui_log list \<Rightarrow> ffmpeg_cmd list \<Rightarrow> worker" where
  "finish_task total_sub_tasks st sent_now tried =
     (let done = completed_tasks st + 1
      in \<lparr>completed_tasks = done,
           sent = sent_now @
             [Log_task_done, Total_progress (py_int (of_int done / of_int total_sub_tasks * 100))],
           attempts = attempts st @ tried\<rparr>)"

definition render_target ::
  "(ffmpeg_cmd \<Rightarrow> rat \<times> reading list) \<Rightarrow> string \<Rightarrow> bool \<Rightarrow> int \<Rightarrow> int \<Rightarrow> int \<Rightarrow> int \<Rightarrow>
   string \<times> rat \<Rightarrow> worker \<Rightarrow> worker option" where
  "render_target child v_path is_landscape w h total_f total_sub_tasks preset st =
     (case preset of (label, ratio) \<Rightarrow>
        let target_h = py_int (of_int w / ratio);
            target_file = ''output/'' @ label @ ''/'' @ v_path;
            filter_str = build_complex_filter is_landscape w h target_h;
            run_gpu = run_ffmpeg_task (child (cmd_gpu v_path filter_str target_file)) total_f;
            sent1 = sent st @ [Log_processing v_path label] @ map From_task (emitted run_gpu)
        in (case returned run_gpu of
             None \<Rightarrow> None
           | Some success \<Rightarrow>
               if \<not> success then
                 (let run_cpu = run_ffmpeg_task (child (cmd_cpu v_path filter_str target_file)) total_f
                  in case returned run_cpu of
                       None \<Rightarrow> None
                     | Some ignored \<Rightarrow>
                         Some (finish_task total_sub_tasks st
                                 (sent1 @ [Log_gpu_failed] @ map From_task (emitted run_cpu))
                                 [cmd_gpu v_path filter_str target_file,
                                  cmd_cpu v_path filter_str target_file]))
               else Some (finish_task total_sub_tasks st sent1
                            [cmd_gpu v_path filter_str target_file])))"

section \<open>Observations and sample inputs\<close>

text \<open>The duration of the first call of trim_video among the events of a unit.\<close>

fun trim_target :: "event list \<Rightarrow> rat option" where
  "trim_target [] = None"
| "trim_target (Call_trim_video src dst seconds # es) = Some seconds"
| "trim_target (e # es) = trim_target es"

text \<open>The percentages of the progress bars among the signals of a task.\<close>

fun progress_values :: "signal list \<Rightarrow> int list" where
  "progress_values [] = []"
| "progress_values (Progress_bar p # ss) = p # progress_values ss"
| "progress_values (Stall_warning # ss) = progress_values ss"

text \<open>The frame counts that the lines of a list of readings carry.\<close>

fun frames_read :: "reading list \<Rightarrow> nat list" where
  "frames_read [] = []"
| "frames_read (r # rs) =
     (case frame_of_line (line r) of
        None \<Rightarrow> frames_read rs
      | Some n \<Rightarrow> n # frames_read rs)"


text \<open>
  A sample environment: one clip behind every source name, an engine whose trimmed copy
  keeps at most 14 seconds and whose rotated copy has its sides exchanged, runs that
  succeed (the trim run as stated), and an output file of the stated size.
\<close>

definition sample_clip :: "int \<Rightarrow> int \<Rightarrow> rat \<Rightarrow> rat \<Rightarrow> video_info" where
  "sample_clip w h sar d =
     \<lparr>width = w, height = h, display_ratio = of_int w * sar / of_int h,
      duration = d, fps = 30, has_audio = True\<rparr>"

fun engine_probe :: "video_info \<Rightarrow> path \<Rightarrow> video_info option" where
  "engine_probe clip (Source n) = Some clip"
| "engine_probe clip (Trimmed p) =
     map_option (\<lambda>vi. vi\<lparr>duration := min (duration vi) 14\<rparr>) (engine_probe clip p)"
| "engine_probe clip (Rotated p) =
     map_option (\<lambda>vi. vi\<lparr>width := height vi, height := width vi,
                          display_ratio := 1 / display_ratio vi\<rparr>) (engine_probe clip p)"
| "engine_probe clip (Output n) = None"

definition sample_world :: "video_info \<Rightarrow> bool \<Rightarrow> nat \<Rightarrow> world" where
  "sample_world clip trim_ok out_bytes =
     \<lparr>ffmpeg_found = True, cuda_support = False, probe = engine_probe clip,
      trim_runs = (\<lambda>p. trim_ok), rotate_runs = (\<lambda>p. True), fg_scale_runs = (\<lambda>p. True),
      feather_runs = (\<lambda>p. True), fallback_runs = (\<lambda>p. True), encode_runs = (\<lambda>p. True),
      output_exists = (\<lambda>p. True), output_size = (\<lambda>p. out_bytes)\<rparr>"

text \<open>Sample readings: a line at a time of the clock, and the end of the child.\<close>

definition line_at :: "string \<Rightarrow> rat \<Rightarrow> reading" where
  "line_at l t = \<lparr>is_running = True, line = l, poll = None, clock = t\<rparr>"

definition exit_at :: "int \<Rightarrow> rat \<Rightarrow> reading" where
  "exit_at rc t = \<lparr>is_running = True, line = [], poll = Some rc, clock = t\<rparr>"

text \<open>A child that leaves at once with return code 1, whatever the command.\<close>

definition failing_child :: "ffmpeg_cmd \<Rightarrow> rat \<times> reading list" where
  "failing_child c = (0, [exit_at 1 1])"

section \<open>Lemmas on the events of a unit\<close>

lemmas world_defs = sample_world_def sample_clip_def process_video_def trim_stage_def
  rotate_stage_def compose_stage_def rotate_and_compose_def trim_video_def
  create_feathered_foreground_def fg_scaling_def needs_rotation_def MAX_DURATION_def
  TRIM_DURATION_def TARGET_RATIO_def FEATHER_WIDTH_def Let_def

lemma trim_target_append:
  "trim_target (xs @ ys) = (case trim_target xs of Some s \<Rightarrow> Some s | None \<Rightarrow> trim_target ys)"
  by (induction xs rule: trim_target.induct) auto

lemma trim_target_rotate_stage: "trim_target (fst (rotate_stage w wk)) = None"
  by (cases wk) (auto simp: rotate_stage_def Let_def split: option.splits)

lemma trim_target_compose_stage: "trim_target (fst (compose_stage w wk out tw th c)) = None"
  by (cases wk) (auto simp: compose_stage_def Let_def split: option.splits sum.splits py_error.splits)

lemma trim_target_rotate_and_compose:
  "trim_target (fst (rotate_and_compose w wk out tw th c)) = None"
proof (cases "rotate_stage w wk")
  case (Pair ev2 r)
  have e2: "trim_target ev2 = None"
    using trim_target_rotate_stage [of w wk] Pair by simp
  show ?thesis
  proof (cases r)
    case None
    with Pair e2 show ?thesis by (simp add: rotate_and_compose_def)
  next
    case (Some wk2)
    obtain ev3 b where c: "compose_stage w wk2 out tw th c = (ev3, b)"
      by (cases "compose_stage w wk2 out tw th c")
    have "trim_target ev3 = None"
      using trim_target_compose_stage [of w wk2 out tw th c] c by simp
    with Pair Some e2 c show ?thesis
      by (simp add: rotate_and_compose_def trim_target_append)
  qed
qed

lemma trim_target_trim_stage:
  "trim_target (fst (trim_stage w p vi)) = (if duration vi > MAX_DURATION then Some TRIM_DURATION else None)"
  by (auto simp: trim_stage_def Let_def split: option.splits)

lemma no_encode_trim_stage: "Run_encode a b d \<notin> set (fst (trim_stage w p vi))"
  by (auto simp: trim_stage_def Let_def split: option.splits)

lemma no_encode_rotate_stage: "Run_encode a b d \<notin> set (fst (rotate_stage w wk))"
  by (cases wk) (auto simp: rotate_stage_def Let_def split: option.splits)

lemma compose_stage_encode:
  assumes "Run_encode a b d \<in> set (fst (compose_stage w (src, vi, dur) out tw th c))"
  shows "a = src
     \<and> (snd (compose_stage w (src, vi, dur) out tw th c) \<longleftrightarrow> encode_runs w src \<and> output_exists w out)
     \<and> (encode_runs w src \<and> output_exists w out \<longrightarrow>
          ((Log Warn_small_output \<in> set (fst (compose_stage w (src, vi, dur) out tw th c)))
             \<longleftrightarrow> (of_nat (output_size w out) :: rat) / (1024 * 1024) < 1 / 10))
     \<and> (encode_runs w src \<and> \<not> output_exists w out \<longrightarrow>
          Log Err_output_missing \<in> set (fst (compose_stage w (src, vi, dur) out tw th c)))"
  using assms
  by (auto simp: compose_stage_def Let_def split: sum.splits py_error.splits if_splits)

lemma process_video_encode:
  assumes "Run_encode a b d \<in> set (fst (process_video w p out tw th c))"
  shows "\<exists>vi dur. Run_encode a b d \<in> set (fst (compose_stage w (a, vi, dur) out tw th c))
           \<and> snd (process_video w p out tw th c) = snd (compose_stage w (a, vi, dur) out tw th c)
           \<and> set (fst (compose_stage w (a, vi, dur) out tw th c)) \<subseteq> set (fst (process_video w p out tw th c))"
proof -
  from assms have f: "ffmpeg_found w" by (auto simp: process_video_def split: if_splits)
  from assms f obtain vi0 where p0: "probe w p = Some vi0"
    by (auto simp: process_video_def split: option.splits)
  obtain ev1 r1 where t: "trim_stage w p vi0 = (ev1, r1)" by (cases "trim_stage w p vi0")
  have n1: "Run_encode a b d \<notin> set ev1" using no_encode_trim_stage [of a b d w p vi0] t by simp
  from assms f p0 t n1 obtain wk1 where r1: "r1 = Some wk1"
    by (cases r1) (auto simp: process_video_def)
  obtain ev2 r2 where r: "rotate_stage w wk1 = (ev2, r2)" by (cases "rotate_stage w wk1")
  have n2: "Run_encode a b d \<notin> set ev2" using no_encode_rotate_stage [of a b d w wk1] r by simp
  from assms f p0 t n1 r1 r n2 obtain wk2 where r2: "r2 = Some wk2"
    by (cases r2) (auto simp: process_video_def rotate_and_compose_def)
  obtain src vi dur where wk2: "wk2 = (src, vi, dur)" by (cases wk2)
  obtain ev3 r3 where c3: "compose_stage w (src, vi, dur) out tw th c = (ev3, r3)"
    by (cases "compose_stage w (src, vi, dur) out tw th c")
  have pv: "process_video w p out tw th c = (ev1 @ ev2 @ ev3, r3)"
    using f p0 t r1 r r2 wk2 c3 by (simp add: process_video_def rotate_and_compose_def)
  with assms n1 n2 have in3: "Run_encode a b d \<in> set ev3" by simp
  with c3 have "a = src" using compose_stage_encode [of a b d w src vi dur out tw th c] by simp
  with pv c3 in3 show ?thesis by (intro exI [of _ vi] exI [of _ dur]) auto
qed

lemma py_int_quot: "0 \<le> a \<Longrightarrow> 0 < b \<Longrightarrow> py_int (of_int a / of_int b) = a div b"
  by (simp add: py_int_def floor_divide_of_int_eq)





lemma target_h_lower:
  assumes "0 \<le> w" and "(label, ratio) \<in> set target_presets"
  shows "2 * w \<le> py_int (of_int w / ratio)"
proof -
  from assms(2) have "ratio = 9 / 20 \<or> ratio = 5 / 11" by (auto simp: target_presets_def)
  then show ?thesis
  proof
    assume r: "ratio = 9 / 20"
    have e: "(of_int w :: rat) / ratio = of_int (20 * w) / of_int 9" unfolding r by simp
    have "py_int (of_int w / ratio) = (20 * w) div 9"
      unfolding e by (rule py_int_quot) (use assms(1) in simp_all)
    with assms(1) show ?thesis by linarith
  next
    assume r: "ratio = 5 / 11"
    have e: "(of_int w :: rat) / ratio = of_int (11 * w) / of_int 5" unfolding r by simp
    have "py_int (of_int w / ratio) = (11 * w) div 5"
      unfolding e by (rule py_int_quot) (use assms(1) in simp_all)
    with assms(1) show ?thesis by linarith
  qed
qed

lemma feather_against_canvas:
  assumes "0 \<le> w" and "(label, ratio) \<in> set target_presets"
  shows "((of_int (featherWidthPx (build_complex_filter rot w h (py_int (of_int w / ratio)))) :: rat)
            < of_int (min (fst (bg_crop (build_complex_filter rot w h (py_int (of_int w / ratio)))))
                          (snd (bg_crop (build_complex_filter rot w h (py_int (of_int w / ratio)))))) / 2)
         \<longleftrightarrow> 62 \<le> w"
proof -
  let ?t = "py_int (of_int w / ratio)"
  have t: "2 * w \<le> ?t" using target_h_lower [OF assms] .
  have "w \<le> ?t" using t assms(1) by linarith
  then have "w div 2 \<le> ?t div 2" by (rule zdiv_mono1) simp
  then have m: "min ((w div 2) * 2) ((?t div 2) * 2) = (w div 2) * 2" by simp
  have "((30 :: rat) < of_int ((w div 2) * 2) / 2) = (60 < (w div 2) * 2)"
  proof -
    have "((30 :: rat) < of_int ((w div 2) * 2) / 2) = ((60 :: rat) < of_int ((w div 2) * 2))" by simp
    also have "\<dots> = (of_int 60 < (of_int ((w div 2) * 2) :: rat))" by simp
    also have "\<dots> = (60 < (w div 2) * 2)" by (simp only: of_int_less_iff)
    finally show ?thesis .
  qed
  also have "\<dots> = (62 \<le> w)" by presburger
  finally show ?thesis
    by (simp add: featherWidthPx_def build_complex_filter_def Let_def m)
qed

lemmas task_defs = run_ffmpeg_task_def line_at_def exit_at_def note_line_def percent_def
  frame_of_line_def match_frame_at_def is_space_def is_digit_def digits_value_def

lemma py_int_mono: "x \<le> y \<Longrightarrow> py_int x \<le> py_int y"
proof -
  assume a: "x \<le> y"
  consider "0 \<le> x" | "x < 0" "0 \<le> y" | "y < 0" using a by linarith
  then show ?thesis
  proof cases
    case 1
    with a show ?thesis by (simp add: py_int_def floor_mono)
  next
    case 2
    then have c: "\<lceil>x\<rceil> \<le> 0" and f: "0 \<le> \<lfloor>y\<rfloor>" by simp_all
    have "py_int x = \<lceil>x\<rceil>" and "py_int y = \<lfloor>y\<rfloor>" using 2 by (simp_all add: py_int_def)
    with c f show ?thesis by linarith
  next
    case 3
    with a show ?thesis by (simp add: py_int_def ceiling_mono)
  qed
qed

lemma percent_mono:
  assumes "0 < total_frames" and "a \<le> b"
  shows "percent total_frames a \<le> percent total_frames b"
proof -
  have "(of_int (a * 100) :: rat) \<le> of_int (b * 100)" using assms(2) by simp
  then have "(of_int (a * 100) :: rat) / of_int total_frames \<le> of_int (b * 100) / of_int total_frames"
    using assms(1) by (simp add: divide_right_mono)
  then have "py_int (of_int (a * 100) / of_int total_frames)
             \<le> py_int (of_int (b * 100) / of_int total_frames)"
    by (rule py_int_mono)
  then show ?thesis by (simp add: percent_def)
qed

lemma progress_values_append:
  "progress_values (xs @ ys) = progress_values xs @ progress_values ys"
  by (induction xs rule: progress_values.induct) simp_all

lemma run_loop_sorted:
  assumes "0 < total_frames"
    and "sorted (frames_read rs)"
    and "\<forall>n \<in> set (frames_read rs). last_frame_count \<le> int n"
    and "sorted (progress_values out)"
    and "\<forall>p \<in> set (progress_values out). p \<le> percent total_frames last_frame_count"
  shows "sorted (progress_values (emitted (run_loop total_frames (last_frame_count, last_active_time, out) rs)))"
  using assms
proof (induction rs arbitrary: last_frame_count last_active_time out)
  case Nil
  then show ?case by simp
next
  case (Cons r rs)
  show ?case
  proof (cases "frame_of_line (line r)")
    case None
    then have n: "note_line total_frames r (last_frame_count, last_active_time, out)
                  = (last_frame_count, last_active_time, out)"
      by (simp add: note_line_def)
    have f: "frames_read (r # rs) = frames_read rs" using None by simp
    have ih: "sorted (progress_values (emitted (run_loop total_frames (last_frame_count, last_active_time, out) rs)))"
      using Cons.IH [of last_frame_count out last_active_time] Cons.prems f by simp
    show ?thesis using n ih Cons.prems(4) by (simp add: progress_values_append)
  next
    case (Some m)
    have f: "frames_read (r # rs) = m # frames_read rs" using Some by simp
    have srt: "sorted (frames_read rs)" and low: "\<forall>n \<in> set (frames_read rs). int m \<le> int n"
      and lm: "last_frame_count \<le> int m"
      using Cons.prems(2,3) f by auto
    show ?thesis
    proof (cases "int m = last_frame_count")
      case True
      then have n: "note_line total_frames r (last_frame_count, last_active_time, out)
                    = (last_frame_count, last_active_time, out)"
        using Some by (simp add: note_line_def)
      have ih: "sorted (progress_values (emitted (run_loop total_frames (last_frame_count, last_active_time, out) rs)))"
        using Cons.IH [of last_frame_count out last_active_time] Cons.prems srt low True by simp
      show ?thesis using n ih Cons.prems(4) by (simp add: progress_values_append)
    next
      case False
      let ?out = "out @ [Progress_bar (percent total_frames (int m))]"
      have n: "note_line total_frames r (last_frame_count, last_active_time, out)
                    = (int m, clock r, ?out)"
        using Some False Cons.prems(1) by (simp add: note_line_def)
      have pm: "percent total_frames last_frame_count \<le> percent total_frames (int m)"
        using percent_mono [OF Cons.prems(1) lm] .
      have so: "sorted (progress_values ?out)"
        using Cons.prems(4,5) pm by (auto simp: progress_values_append sorted_append)
      have bo: "\<forall>p \<in> set (progress_values ?out). p \<le> percent total_frames (int m)"
        using Cons.prems(5) pm by (auto simp: progress_values_append)
      have ih: "sorted (progress_values (emitted (run_loop total_frames (int m, clock r, ?out) rs)))"
        using Cons.IH [of "int m" ?out "clock r"] Cons.prems(1) srt low so bo by simp
      show ?thesis using n ih so Cons.prems(4) by (simp add: progress_values_append)
    qed
  qed
qed

lemma watchdog_fires:
  assumes "is_running r" and "\<not> (line r = [] \<and> poll r \<noteq> None)"
    and "frame_of_line (line r) = None \<or> frame_of_line (line r) = Some (nat last_frame_count)"
    and "0 \<le> last_frame_count \<or> frame_of_line (line r) = None"
    and "clock r - last_active_time > 25"
  shows "run_loop total_frames (last_frame_count, last_active_time, out) (r # rs)
           = \<lparr>returned = Some False, terminated = True, emitted = out @ [Stall_warning]\<rparr>"
  using assms by (auto simp: note_line_def)

section \<open>The trim decision\<close>

text \<open>
  Claim C6. In process_video (lines 594-623), once the tool is found and the source is
  probed, the unit calls trim_video for the leading 14 seconds exactly when the probed
  duration exceeds 60 seconds, and makes no such call otherwise: a source of 90 seconds has
  the trim target 14, one of 40 seconds has none.
\<close>

theorem trim_decision:
  assumes "ffmpeg_found w" and "probe w p = Some vi"
  shows "trim_target (fst (process_video w p out tw th c)) =
           (if duration vi > 60 then Some 14 else None)"
proof (cases "trim_stage w p vi")
  case (Pair ev1 r)
  have e1: "trim_target ev1 = (if duration vi > 60 then Some 14 else None)"
    using trim_target_trim_stage [of w p vi] Pair
    by (simp add: MAX_DURATION_def TRIM_DURATION_def)
  show ?thesis
  proof (cases r)
    case None
    with Pair e1 assms show ?thesis by (simp add: process_video_def)
  next
    case (Some wk1)
    obtain ev b where c: "rotate_and_compose w wk1 out tw th c = (ev, b)"
      by (cases "rotate_and_compose w wk1 out tw th c")
    have "trim_target ev = None"
      using trim_target_rotate_and_compose [of w wk1 out tw th c] c by simp
    with Pair Some e1 c assms show ?thesis
      by (simp add: process_video_def trim_target_append)
  qed
qed

theorem trim_decision_witness:
  "trim_target (fst (process_video (sample_world (sample_clip 1920 800 1 90) True 5000000)
       (Source ''a.mp4'') (Output ''a.mp4'') 1080 1920 False)) = Some 14
   \<and> trim_target (fst (process_video (sample_world (sample_clip 1920 800 1 40) True 5000000)
       (Source ''a.mp4'') (Output ''a.mp4'') 1080 1920 False)) = None"
  using trim_decision [of "sample_world (sample_clip 1920 800 1 90) True 5000000" "Source ''a.mp4''"
          "sample_clip 1920 800 1 90" "Output ''a.mp4''" 1080 1920 False]
        trim_decision [of "sample_world (sample_clip 1920 800 1 40) True 5000000" "Source ''a.mp4''"
          "sample_clip 1920 800 1 40" "Output ''a.mp4''" 1080 1920 False]
  by (simp add: sample_world_def sample_clip_def)

section \<open>A failed trim\<close>

text \<open>
  Claim C10. When the source is longer than 60 seconds and trim_video returns
  False, process_video (lines 594-623) logs a warning and goes on from the original path, the
  original video_info and the original duration: its events and its result are those of
  the rotation and composition steps on that working state, after the call and the warning.
  If no rotation is due and the remaining steps succeed, it returns True, and the final
  run reads the original source.
\<close>

theorem trim_failure_tolerated:
  assumes "ffmpeg_found w" and "probe w p = Some vi" and "duration vi > MAX_DURATION"
    and "\<not> trim_video w p (Trimmed p) TRIM_DURATION"
  shows "process_video w p out tw th c =
           ([Call_trim_video p (Trimmed p) TRIM_DURATION, Log Warn_trim_failed]
              @ fst (rotate_and_compose w (p, vi, duration vi) out tw th c),
            snd (rotate_and_compose w (p, vi, duration vi) out tw th c))
         \<and> (\<not> needs_rotation (display_ratio vi)
              \<and> (\<exists>gm. create_feathered_foreground w p (width vi) (height vi) (display_ratio vi) tw th = Inr gm)
              \<and> encode_runs w p \<and> output_exists w out
            \<longrightarrow> snd (process_video w p out tw th c)
                \<and> Run_encode p out c \<in> set (fst (process_video w p out tw th c)))"
proof -
  have t: "trim_stage w p vi =
      ([Call_trim_video p (Trimmed p) TRIM_DURATION, Log Warn_trim_failed], Some (p, vi, duration vi))"
    using assms by (simp add: trim_stage_def)
  have pv: "process_video w p out tw th c =
           ([Call_trim_video p (Trimmed p) TRIM_DURATION, Log Warn_trim_failed]
              @ fst (rotate_and_compose w (p, vi, duration vi) out tw th c),
            snd (rotate_and_compose w (p, vi, duration vi) out tw th c))"
    using assms t by (simp add: process_video_def split: prod.splits)
  have "snd (rotate_and_compose w (p, vi, duration vi) out tw th c)
          \<and> Run_encode p out c \<in> set (fst (rotate_and_compose w (p, vi, duration vi) out tw th c))"
    if "\<not> needs_rotation (display_ratio vi)"
      and "create_feathered_foreground w p (width vi) (height vi) (display_ratio vi) tw th = Inr gm"
      and "encode_runs w p" and "output_exists w out" for gm
    using that by (simp add: rotate_and_compose_def rotate_stage_def compose_stage_def Let_def)
  with pv show ?thesis by auto
qed

theorem trim_failure_tolerated_witness:
  "duration (sample_clip 1920 800 1 90) > MAX_DURATION
   \<and> \<not> trim_video (sample_world (sample_clip 1920 800 1 90) False 5000000)
         (Source ''a.mp4'') (Trimmed (Source ''a.mp4'')) TRIM_DURATION
   \<and> process_video (sample_world (sample_clip 1920 800 1 90) False 5000000)
       (Source ''a.mp4'') (Output ''a.mp4'') 1080 1920 False
     = ([Call_trim_video (Source ''a.mp4'') (Trimmed (Source ''a.mp4'')) 14, Log Warn_trim_failed,
         Call_create_foreground (Source ''a.mp4'') 1920 800 (12 / 5) 1080 1920,
         Run_encode (Source ''a.mp4'') (Output ''a.mp4'') False], True)"
  using trim_failure_tolerated [of "sample_world (sample_clip 1920 800 1 90) False 5000000"
          "Source ''a.mp4''" "sample_clip 1920 800 1 90" "Output ''a.mp4''" 1080 1920 False]
  by (simp add: world_defs)

section \<open>The look at the output file\<close>

text \<open>
  Claim C9, as stated, fails: with an output file that exists and has 0 bytes,
  process_video (lines 781-802) logs the warning of line 789 and returns True.
\<close>

theorem zero_byte_output_counterexample:
  "output_exists (sample_world (sample_clip 1920 800 1 40) True 0) (Output ''a.mp4'')
   \<and> output_size (sample_world (sample_clip 1920 800 1 40) True 0) (Output ''a.mp4'') = 0
   \<and> process_video (sample_world (sample_clip 1920 800 1 40) True 0)
       (Source ''a.mp4'') (Output ''a.mp4'') 1080 1920 False
     = ([Call_create_foreground (Source ''a.mp4'') 1920 800 (12 / 5) 1080 1920,
         Run_encode (Source ''a.mp4'') (Output ''a.mp4'') False,
         Log Warn_small_output], True)"
  by (simp add: world_defs)

text \<open>
  Claim C9, amended. Whenever the final run was made for a working source and returned
  without error, process_video returns True if the output file exists, whatever its
  size; a size below 0.1 MB (0 bytes included) only adds a warning to the log. It returns
  False, with an error in the log, if the output file does not exist. The batch goes
  through every file of its list, whatever the results of the others: its success count is
  the number of files whose unit returned True, its total the length of the list.
\<close>

theorem output_check:
  "(Run_encode src out c \<in> set (fst (process_video w p out tw th c))
      \<and> encode_runs w src \<and> output_exists w out
     \<longrightarrow> snd (process_video w p out tw th c)
         \<and> ((Log Warn_small_output \<in> set (fst (process_video w p out tw th c)))
              \<or> \<not> (of_nat (output_size w out) :: rat) / (1024 * 1024) < 1 / 10))
   \<and> (Run_encode src out c \<in> set (fst (process_video w p out tw th c))
      \<and> encode_runs w src \<and> \<not> output_exists w out
     \<longrightarrow> \<not> snd (process_video w p out tw th c)
         \<and> Log Err_output_missing \<in> set (fst (process_video w p out tw th c)))
   \<and> snd (process_all_videos w fs) =
       (length (filter (\<lambda>f. snd (process_single_video w f)) fs), length fs)"
proof -
  have batch: "snd (process_loop w fs acc) =
       snd acc + length (filter (\<lambda>f. snd (process_single_video w f)) fs)" for acc
  proof (induction fs arbitrary: acc)
    case Nil
    show ?case by simp
  next
    case (Cons f fs)
    obtain es k where acc: "acc = (es, k)" by (cases acc)
    obtain e r where s: "process_single_video w f = (e, r)" by (cases "process_single_video w f")
    show ?case using Cons.IH acc s by simp
  qed
  have all: "snd (process_all_videos w fs) =
       (length (filter (\<lambda>f. snd (process_single_video w f)) fs), length fs)"
  proof -
    obtain es k where l: "process_loop w fs ([], 0) = (es, k)" by (cases "process_loop w fs ([], 0)")
    with batch [of "([], 0)"] show ?thesis by (simp add: process_all_videos_def)
  qed
  have enc: "snd (process_video w p out tw th c) = (encode_runs w src \<and> output_exists w out)
      \<and> (encode_runs w src \<and> output_exists w out \<and> (of_nat (output_size w out) :: rat) / (1024 * 1024) < 1 / 10
            \<longrightarrow> Log Warn_small_output \<in> set (fst (process_video w p out tw th c)))
      \<and> (encode_runs w src \<and> \<not> output_exists w out
            \<longrightarrow> Log Err_output_missing \<in> set (fst (process_video w p out tw th c)))"
    if h: "Run_encode src out c \<in> set (fst (process_video w p out tw th c))"
  proof -
    from process_video_encode [OF h] obtain vi dur where
      a: "Run_encode src out c \<in> set (fst (compose_stage w (src, vi, dur) out tw th c))"
      and b: "snd (process_video w p out tw th c) = snd (compose_stage w (src, vi, dur) out tw th c)"
      and s: "set (fst (compose_stage w (src, vi, dur) out tw th c)) \<subseteq> set (fst (process_video w p out tw th c))"
      by blast
    from compose_stage_encode [OF a] b s show ?thesis by auto
  qed
  from enc all show ?thesis by auto
qed

theorem output_check_witness:
  "snd (process_video (sample_world (sample_clip 1920 800 1 40) True 0)
       (Source ''a.mp4'') (Output ''a.mp4'') 1080 1920 False)
   \<and> Log Warn_small_output \<in> set (fst (process_video (sample_world (sample_clip 1920 800 1 40) True 0)
       (Source ''a.mp4'') (Output ''a.mp4'') 1080 1920 False))
   \<and> snd (process_all_videos (sample_world (sample_clip 1920 800 1 40) True 0) [''a.mp4'', ''b.mp4'']) = (2, 2)"
  using output_check [of "Source ''a.mp4''" "Output ''a.mp4''" False
          "sample_world (sample_clip 1920 800 1 40) True 0" "Source ''a.mp4''" 1080 1920
          "[''a.mp4'', ''b.mp4'']"]
  by (simp add: world_defs process_single_video_def is_target_ratio_def
        calculate_target_resolution_def)

section \<open>The classification of ratios\<close>

text \<open>
  Claim C5, as stated, fails on one of the two classifications it names: in
  Video_Edit_FF.py, is_valid_aspect_ratio accepts 1920 by 1080, a ratio that is within
  the tolerance of none of 9/16, 9/18 and 9/15, and it does not accept 1 by 2, the ratio 9/18.
\<close>

theorem ratio_variant_counterexample:
  "is_valid_aspect_ratio 1920 1080
   \<and> \<not> (\<bar>(1920 / 1080 :: rat) - 9 / 16\<bar> < 1 / 100 \<or> \<bar>(1920 / 1080 :: rat) - 9 / 18\<bar> < 1 / 100
          \<or> \<bar>(1920 / 1080 :: rat) - 9 / 15\<bar> < 1 / 100)
   \<and> \<not> is_valid_aspect_ratio 1 2 \<and> \<bar>(1 / 2 :: rat) - 9 / 18\<bar> < 1 / 100"
  by (simp add: is_valid_aspect_ratio_def)

text \<open>
  Claim C5, amended. In VE_QW_FInal_prefect.py the classification is Skip exactly
  for the ratios within 0.01 of 9/16, of 9/18 or of 9/15, and NeedsReframe for every
  other ratio; a skipped source is reported as a success without being processed. In
  Video_Edit_FF.py a source is accepted exactly when its ratio (0 for a zero height) is
  within 0.01 of 9/16 or of 16/9.
\<close>

theorem ratio_classification:
  "classifyRatio r =
     (if \<bar>r - 9 / 16\<bar> < 1 / 100 \<or> \<bar>r - 9 / 18\<bar> < 1 / 100 \<or> \<bar>r - 9 / 15\<bar> < 1 / 100
      then Skip else NeedsReframe)
   \<and> (probe w (Source n) = Some vi \<and> classifyRatio (display_ratio vi) = Skip
        \<longrightarrow> process_single_video w n = ([Log Info_skipped], True))
   \<and> (is_valid_aspect_ratio a b \<longleftrightarrow>
        (\<bar>(if b \<noteq> 0 then of_int a / of_int b else 0 :: rat) - 9 / 16\<bar> < 1 / 100
         \<or> \<bar>(if b \<noteq> 0 then of_int a / of_int b else 0 :: rat) - 16 / 9\<bar> < 1 / 100))"
  by (auto simp: classifyRatio_def is_target_ratio_def TARGET_RATIO_def
        process_single_video_def is_valid_aspect_ratio_def Let_def split: if_splits)

theorem ratio_classification_witness:
  "classifyRatio (1080 / 1920) = Skip \<and> classifyRatio (1 / 2) = Skip \<and> classifyRatio (3 / 5) = Skip
   \<and> classifyRatio (16 / 9) = NeedsReframe
   \<and> process_single_video (sample_world (sample_clip 1080 1920 1 40) True 5000000) ''a.mp4''
        = ([Log Info_skipped], True)
   \<and> is_valid_aspect_ratio 1080 1920"
  using ratio_classification [of "1080 / 1920" "sample_world (sample_clip 1080 1920 1 40) True 5000000"
          "''a.mp4''" "sample_clip 1080 1920 1 40" 1080 1920]
        ratio_classification [of "1 / 2" undefined undefined undefined 0 0]
        ratio_classification [of "3 / 5" undefined undefined undefined 0 0]
        ratio_classification [of "16 / 9" undefined undefined undefined 0 0]
  by (simp add: sample_world_def sample_clip_def)

section \<open>The rotation decision\<close>

text \<open>
  Claim C1, as stated, fails on one of the two decisions it names: in ve_wallpaper.py
  (lines 87-89), process_file does not rotate a source of 1000 by 1000 (ratio 1.0) and
  rotates one of 2560 by 1080 (ratio above 16/9).
\<close>

theorem rotation_variant_counterexample:
  "working_dims 1000 1000 = (False, 1000, 1000)
   \<and> (1 :: rat) \<le> 1000 / 1000 \<and> (1000 / 1000 :: rat) \<le> 16 / 9
   \<and> working_dims 2560 1080 = (True, 1080, 2560)
   \<and> \<not> (2560 / 1080 :: rat) \<le> 16 / 9"
  by (simp add: working_dims_def)

text \<open>
  Claim C1, amended. In process_video of VE_QW_FInal_prefect.py (lines 625-685) the
  rotation test is true exactly for 1 \<le> r \<le> 16/9: the transposing run is made exactly for
  such a display ratio of the working source, and for every other ratio the step changes
  nothing. When the run succeeds and the rotated file is probed as height by width, these
  are the dimensions handed to the foreground scaling. In process_file of ve_wallpaper.py a
  source is rotated exactly when its width exceeds its height (ratio above 1), and then the
  working dimensions are height by width.
\<close>

theorem rotation_decision:
  "(needs_rotation r \<longleftrightarrow> 1 \<le> r \<and> r \<le> 16 / 9)
   \<and> ((Run_transpose p (Rotated p) \<in> set (fst (rotate_stage w (p, vi, d))))
        \<longleftrightarrow> needs_rotation (display_ratio vi))
   \<and> (\<not> needs_rotation (display_ratio vi) \<longrightarrow> rotate_stage w (p, vi, d) = ([], Some (p, vi, d)))
   \<and> (needs_rotation (display_ratio vi) \<and> rotate_runs w p
        \<and> probe w (Rotated p) = Some vi' \<and> width vi' = height vi \<and> height vi' = width vi
        \<longrightarrow> take 2 (fst (rotate_and_compose w (p, vi, d) out tw th c))
            = [Run_transpose p (Rotated p),
               Call_create_foreground (Rotated p) (height vi) (width vi) (display_ratio vi') tw th])
   \<and> working_dims ow oh = (ow > oh, if ow > oh then (oh, ow) else (ow, oh))
   \<and> (0 < oh \<longrightarrow> (fst (working_dims ow oh) \<longleftrightarrow> (1 :: rat) < of_int ow / of_int oh))"
proof -
  have a: "(Run_transpose p (Rotated p) \<in> set (fst (rotate_stage w (p, vi, d))))
        \<longleftrightarrow> needs_rotation (display_ratio vi)"
    by (auto simp: rotate_stage_def Let_def split: option.splits)
  have b: "\<not> needs_rotation (display_ratio vi)
        \<Longrightarrow> rotate_stage w (p, vi, d) = ([], Some (p, vi, d))"
    by (simp add: rotate_stage_def)
  have c: "take 2 (fst (rotate_and_compose w (p, vi, d) out tw th c))
            = [Run_transpose p (Rotated p),
               Call_create_foreground (Rotated p) (height vi) (width vi) (display_ratio vi') tw th]"
    if "needs_rotation (display_ratio vi)" and "rotate_runs w p"
      and "probe w (Rotated p) = Some vi'" and "width vi' = height vi" and "height vi' = width vi"
    using that
    by (auto simp: rotate_and_compose_def rotate_stage_def compose_stage_def
          Let_def split: sum.splits prod.splits)
  have e: "0 < oh \<Longrightarrow> (fst (working_dims ow oh) \<longleftrightarrow> (1 :: rat) < of_int ow / of_int oh)"
    by (simp add: working_dims_def Let_def pos_less_divide_eq)
  show ?thesis
    using a b c e by (simp add: needs_rotation_def working_dims_def Let_def)
qed

theorem rotation_decision_witness:
  "needs_rotation 1 \<and> needs_rotation (display_ratio (sample_clip 1280 960 1 40))
   \<and> take 2 (fst (rotate_and_compose (sample_world (sample_clip 1280 960 1 40) True 5000000)
         (Source ''a.mp4'', sample_clip 1280 960 1 40, 40) (Output ''a.mp4'') 1080 1920 False))
       = [Run_transpose (Source ''a.mp4'') (Rotated (Source ''a.mp4'')),
          Call_create_foreground (Rotated (Source ''a.mp4'')) 960 1280 (3 / 4) 1080 1920]
   \<and> working_dims 1280 960 = (True, 960, 1280)"
proof -
  let ?vi = "sample_clip 1280 960 1 40"
  let ?vi' = "\<lparr>width = 960, height = 1280, display_ratio = 3 / 4, duration = 40, fps = 30,
               has_audio = True\<rparr>"
  let ?w = "sample_world ?vi True 5000000"
  note t = rotation_decision [of 1 "Source ''a.mp4''" ?w ?vi 40 ?vi' "Output ''a.mp4''"
             1080 1920 False 1280 960]
  have h: "needs_rotation (display_ratio ?vi) \<and> rotate_runs ?w (Source ''a.mp4'')
        \<and> probe ?w (Rotated (Source ''a.mp4'')) = Some ?vi' \<and> width ?vi' = height ?vi
        \<and> height ?vi' = width ?vi"
    by (simp add: sample_world_def sample_clip_def needs_rotation_def)
  with t show ?thesis by (simp add: sample_clip_def)
qed

section \<open>The geometry of the two layers\<close>




section \<open>The width of the feather\<close>

text \<open>
  Claim C8, as stated, fails: for a source of 40 by 60 pixels ve_wallpaper.py builds,
  for both targets, a canvas of 40 by 88 with border boxes 30 pixels thick, and 30 is not
  below half of 40. No script clamps the width.
\<close>

theorem feather_counterexample:
  "map (\<lambda>(label, g). (featherWidthPx g, bg_crop g)) (process_file_plans 40 60)
     = [(30, (40, 88)), (30, (40, 88))]
   \<and> \<not> ((30 :: rat) < of_int (min 40 88) / 2)"
  by code_simp

text \<open>
  Claim C8, amended. The feather width is the constant 30 and is never clamped. In
  VE_QW_FInal_prefect.py the gradient is FEATHER_WIDTH = 30 pixels wide whatever
  the target, and 30 is below half the smaller side of the canvas the script computes
  (1080 by 1920). In ve_wallpaper.py the border boxes are 30 pixels thick in every graph,
  and in the graphs that process_file builds for a source with non-negative sides this is
  below half the smaller side of the canvas exactly when the smaller side of the source is
  at least 62.
\<close>

theorem feather_width_fixed:
  "(create_feathered_foreground w src ow oh r tw th = Inr (g, Gradient_alpha n) \<longrightarrow> n = 30)
   \<and> (of_int FEATHER_WIDTH :: rat)
       < of_int (min (fst (calculate_target_resolution a b q)) (snd (calculate_target_resolution a b q))) / 2
   \<and> featherWidthPx (build_complex_filter rot w0 h0 t0) = 30
   \<and> (0 \<le> sw \<and> 0 \<le> sh \<and> (label, gr) \<in> set (process_file_plans sw sh) \<longrightarrow>
        (((of_int (featherWidthPx gr) :: rat) < of_int (min (fst (bg_crop gr)) (snd (bg_crop gr))) / 2)
         \<longleftrightarrow> 62 \<le> min sw sh))"
proof -
  have 1: "create_feathered_foreground w src ow oh r tw th = Inr (g, Gradient_alpha n) \<Longrightarrow> n = 30"
    by (auto simp: create_feathered_foreground_def FEATHER_WIDTH_def split: sum.splits if_splits)
  have 2: "(of_int FEATHER_WIDTH :: rat)
       < of_int (min (fst (calculate_target_resolution a b q)) (snd (calculate_target_resolution a b q))) / 2"
    by (simp add: calculate_target_resolution_def FEATHER_WIDTH_def)
  have 3: "featherWidthPx (build_complex_filter rot w0 h0 t0) = 30"
    by (simp add: featherWidthPx_def build_complex_filter_def Let_def)
  have 4: "((of_int (featherWidthPx gr) :: rat) < of_int (min (fst (bg_crop gr)) (snd (bg_crop gr))) / 2)
         \<longleftrightarrow> 62 \<le> min sw sh"
    if p: "0 \<le> sw" "0 \<le> sh" and m: "(label, gr) \<in> set (process_file_plans sw sh)"
  proof -
    let ?w = "if sw > sh then sh else sw"
    let ?h = "if sw > sh then sw else sh"
    from m obtain ratio where r: "(label, ratio) \<in> set target_presets"
      and g: "gr = build_complex_filter (sw > sh) ?w ?h (py_int (of_int ?w / ratio))"
      by (auto simp: process_file_plans_def working_dims_def Let_def split: if_splits)
    have w: "0 \<le> ?w" using p by simp
    have e: "?w = min sw sh" by simp
    show ?thesis
      unfolding g using feather_against_canvas [OF w r, of "sw > sh" ?h] unfolding e .
  qed
  from 1 2 3 4 show ?thesis by blast
qed

theorem feather_width_fixed_witness:
  "map (\<lambda>(label, g). (featherWidthPx g, bg_crop g)) (process_file_plans 1080 1920)
     = [(30, (1080, 2400)), (30, (1080, 2376))]
   \<and> (30 :: rat) < of_int (min 1080 2400) / 2"
proof -
  have c: "process_file_plans 1080 1920
     = [(''9x20'', build_complex_filter False 1080 1920 2400),
        (''5x11'', build_complex_filter False 1080 1920 2376)]"
    by code_simp
  have d: "map (\<lambda>(label, g). (featherWidthPx g, bg_crop g)) (process_file_plans 1080 1920)
     = [(30, (1080, 2400)), (30, (1080, 2376))]"
    by code_simp
  have "(0 :: int) \<le> 1080 \<and> (0 :: int) \<le> 1920
     \<and> (''9x20'', build_complex_filter False 1080 1920 2400) \<in> set (process_file_plans 1080 1920)"
    unfolding c by simp
  with feather_width_fixed [of undefined undefined 0 0 0 0 0 undefined 0 0 0 0 False 0 0 0
         1080 1920 "''9x20''" "build_complex_filter False 1080 1920 2400"]
  have "(of_int (featherWidthPx (build_complex_filter False 1080 1920 2400)) :: rat)
          < of_int (min (fst (bg_crop (build_complex_filter False 1080 1920 2400)))
                        (snd (bg_crop (build_complex_filter False 1080 1920 2400)))) / 2"
    by simp
  then have "(30 :: rat) < of_int (min 1080 2400) / 2"
    by (simp add: featherWidthPx_def build_complex_filter_def)
  with d show ?thesis by (intro conjI)
qed

section \<open>The order of the progress reports\<close>

text \<open>
  Claim C7, as stated, fails: run_ffmpeg_task compares the frame count of a line with
  the last one by !=, so after frame 10 a line with frame 5 is reported as well, and the
  reported percentages go down from 10 to 5.
\<close>

theorem progress_order_counterexample:
  "progress_values (emitted (run_ffmpeg_task
      (0, [line_at ''frame=10'' 1, line_at ''frame=5'' 2, exit_at 0 3]) 100)) = [10, 5]
   \<and> \<not> sorted [10, 5 :: int]"
  by (simp add: task_defs py_int_def)

text \<open>
  Claim C7, amended. In run_ffmpeg_task of main_gui_v3_release.py (lines 108-119) a frame
  count equal to the last recorded one is discarded: no report is sent, and the recorded
  count and the time of the last activity stay as they are. A count that differs from the
  last recorded one, a lower one as well, is recorded with the time of the clock and, for a
  positive total, reported. So the reported percentages never decrease provided the frame
  counts in the stream never decrease.
\<close>

theorem progress_order:
  "(0 < total_frames \<and> sorted (frames_read (snd child))
      \<longrightarrow> sorted (progress_values (emitted (run_ffmpeg_task child total_frames))))
   \<and> (frame_of_line (line r) = Some m \<and> int m = last_frame_count
      \<longrightarrow> note_line total_frames r (last_frame_count, last_active_time, out)
          = (last_frame_count, last_active_time, out))
   \<and> (frame_of_line (line r) = Some m \<and> int m \<noteq> last_frame_count \<and> 0 < total_frames
      \<longrightarrow> note_line total_frames r (last_frame_count, last_active_time, out)
          = (int m, clock r, out @ [Progress_bar (percent total_frames (int m))]))"
proof -
  have "sorted (progress_values (emitted (run_ffmpeg_task child total_frames)))"
    if "0 < total_frames" and "sorted (frames_read (snd child))"
    unfolding run_ffmpeg_task_def
    by (rule run_loop_sorted) (use that in simp_all)
  then show ?thesis by (simp add: note_line_def)
qed

theorem progress_order_witness:
  "sorted (frames_read [line_at ''frame=10'' 1, line_at ''frame=10'' 2, line_at ''frame=25'' 3, exit_at 0 4])
   \<and> emitted (run_ffmpeg_task
        (0, [line_at ''frame=10'' 1, line_at ''frame=10'' 2, line_at ''frame=25'' 3, exit_at 0 4]) 50)
      = [Progress_bar 20, Progress_bar 50]
   \<and> sorted (progress_values (emitted (run_ffmpeg_task
        (0, [line_at ''frame=10'' 1, line_at ''frame=10'' 2, line_at ''frame=25'' 3, exit_at 0 4]) 50)))"
proof -
  let ?rs = "[line_at ''frame=10'' 1, line_at ''frame=10'' 2, line_at ''frame=25'' 3, exit_at 0 4]"
  have s: "sorted (frames_read ?rs)" by (simp add: task_defs)
  have e: "emitted (run_ffmpeg_task (0, ?rs) 50) = [Progress_bar 20, Progress_bar 50]"
    by (simp add: task_defs py_int_def)
  have "(0 :: int) < 50 \<and> sorted (frames_read (snd (0 :: rat, ?rs)))" using s by simp
  with progress_order [of 50 "(0, ?rs)" undefined undefined undefined undefined undefined]
  have "sorted (progress_values (emitted (run_ffmpeg_task (0, ?rs) 50)))" by blast
  with s e show ?thesis by (intro conjI)
qed

section \<open>The watchdog\<close>

text \<open>
  Claim C2. The comment at line 121 says that 25 seconds without progress count as a
  stall, but the test of line 122 is reached only when readline has returned. A child
  that writes frame 1 at second 1 and frame 2 at second 31 is not stopped, and the task is
  reported as a success when it leaves with code 0: the late line itself resets the time of
  the last activity before the test. A child that writes frame 1 and then nothing more is
  waited for without end. What the test does achieve is the lemma watchdog_fires: a line
  without progress that arrives more than 25 seconds after the last progress stops the
  child and returns False.
\<close>

theorem watchdog_misses:
  "run_ffmpeg_task (0, [line_at ''frame=1'' 1, line_at ''frame=2'' 31, exit_at 0 32]) 100
     = \<lparr>returned = Some True, terminated = False, emitted = [Progress_bar 1, Progress_bar 2]\<rparr>
   \<and> run_ffmpeg_task (0, [line_at ''frame=1'' 1]) 100
     = \<lparr>returned = None, terminated = False, emitted = [Progress_bar 1]\<rparr>"
  by (simp add: task_defs py_int_def)

section \<open>The fallback to the software encoder\<close>

text \<open>
  Claim C3, as stated, fails: when both the hardware and the software attempt leave with
  return code 1, run (lines 197-222) still logs the task as done and counts it in
  completed_tasks; no failure is reported.
\<close>

theorem fallback_counterexample:
  "returned (run_ffmpeg_task (failing_child (cmd_gpu ''a.mp4'' (build_complex_filter False 1080 1920 2400)
       ''output/9x20/a.mp4'')) 300) = Some False
   \<and> returned (run_ffmpeg_task (failing_child (cmd_cpu ''a.mp4'' (build_complex_filter False 1080 1920 2400)
       ''output/9x20/a.mp4'')) 300) = Some False
   \<and> render_target failing_child ''a.mp4'' False 1080 1920 300 2 (''9x20'', 9 / 20)
       \<lparr>completed_tasks = 0, sent = [], attempts = []\<rparr>
     = Some \<lparr>completed_tasks = 1,
             sent = [Log_processing ''a.mp4'' ''9x20'', Log_gpu_failed, Log_task_done, Total_progress 50],
             attempts = [cmd_gpu ''a.mp4'' (build_complex_filter False 1080 1920 2400) ''output/9x20/a.mp4'',
                         cmd_cpu ''a.mp4'' (build_complex_filter False 1080 1920 2400) ''output/9x20/a.mp4'']\<rparr>"
  by code_simp

text \<open>
  Claim C3, amended. When the hardware attempt returns False, run makes exactly one
  further attempt, with the software encoder and the same filter graph; when the hardware
  attempt returns True, it makes none. The value returned by the software attempt is
  not looked at: whatever it is, the task is logged as done and completed_tasks grows
  by one.
\<close>

theorem fallback_once:
  assumes f: "filter_str = build_complex_filter is_landscape w h (py_int (of_int w / ratio))"
    and t: "target_file = ''output/'' @ label @ ''/'' @ v_path"
  shows "(returned (run_ffmpeg_task (child (cmd_gpu v_path filter_str target_file)) total_f) = Some False
          \<and> returned (run_ffmpeg_task (child (cmd_cpu v_path filter_str target_file)) total_f) = Some b
         \<longrightarrow> (\<exists>st'. render_target child v_path is_landscape w h total_f total_sub_tasks (label, ratio) st = Some st'
               \<and> attempts st' = attempts st @ [cmd_gpu v_path filter_str target_file,
                                                 cmd_cpu v_path filter_str target_file]
               \<and> cmd_encoder (cmd_gpu v_path filter_str target_file) = H264_nvenc
               \<and> cmd_encoder (cmd_cpu v_path filter_str target_file) = Libx264
               \<and> cmd_filter (cmd_cpu v_path filter_str target_file)
                   = cmd_filter (cmd_gpu v_path filter_str target_file)
               \<and> completed_tasks st' = completed_tasks st + 1
               \<and> Log_task_done \<in> set (sent st')))
     \<and> (returned (run_ffmpeg_task (child (cmd_gpu v_path filter_str target_file)) total_f) = Some True
         \<longrightarrow> (\<exists>st'. render_target child v_path is_landscape w h total_f total_sub_tasks (label, ratio) st = Some st'
               \<and> attempts st' = attempts st @ [cmd_gpu v_path filter_str target_file]
               \<and> completed_tasks st' = completed_tasks st + 1))"
  unfolding f t
  by (auto simp: render_target_def finish_task_def cmd_gpu_def cmd_cpu_def Let_def)

theorem fallback_once_witness:
  "render_target failing_child ''a.mp4'' False 1080 1920 300 2 (''9x20'', 9 / 20)
       \<lparr>completed_tasks = 0, sent = [], attempts = []\<rparr> \<noteq> None
   \<and> (\<exists>st'. render_target failing_child ''a.mp4'' False 1080 1920 300 2 (''9x20'', 9 / 20)
          \<lparr>completed_tasks = 0, sent = [], attempts = []\<rparr> = Some st'
        \<and> length (attempts st') = 2 \<and> completed_tasks st' = 1)"
proof -
  let ?F = "build_complex_filter False 1080 1920 (py_int (of_int 1080 / (9 / 20)))"
  let ?T = "''output/'' @ ''9x20'' @ ''/'' @ ''a.mp4''"
  let ?st = "\<lparr>completed_tasks = 0, sent = [], attempts = []\<rparr>"
  have g: "returned (run_ffmpeg_task (failing_child (cmd_gpu ''a.mp4'' ?F ?T)) 300) = Some False"
    by (simp add: failing_child_def task_defs)
  have c: "returned (run_ffmpeg_task (failing_child (cmd_cpu ''a.mp4'' ?F ?T)) 300) = Some False"
    by (simp add: failing_child_def task_defs)
  from fallback_once [of ?F False 1080 1920 "9 / 20" ?T "''9x20''" "''a.mp4''" failing_child 300 False 2 ?st,
         OF refl refl] g c
  obtain st' where s: "render_target failing_child ''a.mp4'' False 1080 1920 300 2 (''9x20'', 9 / 20) ?st = Some st'"
    and a: "attempts st' = attempts ?st @ [cmd_gpu ''a.mp4'' ?F ?T, cmd_cpu ''a.mp4'' ?F ?T]"
    and k: "completed_tasks st' = completed_tasks ?st + 1"
    by blast
  from a have "length (attempts st') = 2" by simp
  moreover from k have "completed_tasks st' = 1" by simp
  ultimately show ?thesis using s by simp
qed

end
